theory Spec2Isabelle
  imports Complex_Main
begin

section \<open>Data model of \<open>Project1/main.go\<close>\<close>

text \<open>
  The model follows the four schedulers \<open>FCFSSchedule\<close>, \<open>SJFPrioritySchedule\<close>,
  \<open>SJFSchedule\<close> and \<open>RRSchedule\<close> of the program (lines 78 to 367 of \<open>main.go\<close>),
  statement by statement.

  The Go structs \<open>Process\<close> and \<open>TimeSlice\<close> hold \<open>int64\<close> fields. The schedulers only
  add, subtract and compare them. The fields are modelled as unbounded integers: the model
  follows the code as long as no sum leaves the 64-bit range, and every concrete input
  below is far from it.
\<close>

record Process =
  ProcessID :: int
  ArrivalTime :: int
  BurstDuration :: int
  Priority :: int

record TimeSlice =
  PID :: int
  Start :: int
  Stop :: int

text \<open>
  A row of the schedule table is the Go slice
  \<open>[]string{Sprint(ProcessID), Sprint(Priority), Sprint(BurstDuration), Sprint(ArrivalTime),
  Sprint(waitingTime), Sprint(turnaround), Sprint(exit)}\<close>. The model keeps the seven numbers
  that are printed. The table is made with \<open>make([][]string, len(processes))\<close>, so a slot
  that no iteration assigns stays \<open>nil\<close>: that is \<open>None\<close>.
\<close>

record ScheduleRow =
  rowID :: int
  rowPriority :: int
  rowBurst :: int
  rowArrival :: int
  rowWait :: int
  rowTurnaround :: int
  rowExit :: int

text \<open>
  The local variables shared by the four schedulers. \<open>totalWait\<close>, \<open>totalTurnaround\<close> and
  \<open>lastCompletion\<close> are \<open>float64\<close> in the source but only ever receive sums of converted
  \<open>int64\<close> values, so they are kept as integers here.
\<close>

record sched_vars =
  serviceTime :: int
  totalWait :: int
  totalTurnaround :: int
  lastCompletion :: int
  waitingTime :: int
  schedule :: "ScheduleRow option list"
  gantt :: "TimeSlice list"

record loop_vars = sched_vars +
  remainingBurst :: "int list"
  completion :: int

text \<open>
  The three averages are \<open>float64\<close> quotients. Go's floating-point division does not panic
  on a zero divisor: it yields NaN for \<open>0/0\<close> and an infinity otherwise. Rounding is not
  modelled: a finite quotient is the exact real number.
\<close>

datatype float64 = Fin real | PosInf | NegInf | NaN

definition fdiv :: "int \<Rightarrow> int \<Rightarrow> float64" where
  "fdiv a b =
     (if b = 0 then (if a = 0 then NaN else if 0 < a then PosInf else NegInf)
      else Fin (real_of_int a / real_of_int b))"

text \<open>
  What a scheduler hands to \<open>outputGantt\<close> and \<open>outputSchedule\<close>. The writer and the title
  only matter to the rendering and are left out.
\<close>

record Output =
  out_gantt :: "TimeSlice list"
  out_schedule :: "ScheduleRow option list"
  aveWait :: float64
  aveTurnaround :: float64
  aveThroughput :: float64

definition init_vars :: "Process list \<Rightarrow> sched_vars" where
  "init_vars processes =
     \<lparr>serviceTime = 0, totalWait = 0, totalTurnaround = 0, lastCompletion = 0,
      waitingTime = 0, schedule = replicate (length processes) None, gantt = []\<rparr>"

definition getBurstDurations :: "Process list \<Rightarrow> int list" where
  "getBurstDurations processes = map BurstDuration processes"

definition init_loop_vars :: "Process list \<Rightarrow> loop_vars" where
  "init_loop_vars processes =
     \<lparr>serviceTime = 0, totalWait = 0, totalTurnaround = 0, lastCompletion = 0,
      waitingTime = 0, schedule = replicate (length processes) None, gantt = [],
      remainingBurst = getBurstDurations processes, completion = 0\<rparr>"

text \<open>The common tail of the four schedulers: the averages and the two output calls.\<close>

definition finish :: "Process list \<Rightarrow> ('a sched_vars_scheme) \<Rightarrow> Output" where
  "finish processes v =
     (let count = int (length processes) in
      \<lparr>out_gantt = gantt v, out_schedule = schedule v,
       aveWait = fdiv (totalWait v) count,
       aveTurnaround = fdiv (totalTurnaround v) count,
       aveThroughput = fdiv count (lastCompletion v)\<rparr>)"

section \<open>First-come, first-serve\<close>

text \<open>
  One iteration of \<open>for i := range processes\<close> in \<open>FCFSSchedule\<close>. \<open>waitingTime\<close> is declared
  outside the loop and assigned only under \<open>ArrivalTime > 0\<close>; otherwise the value of the
  previous iteration is used again.
\<close>

definition FCFS_body :: "Process list \<Rightarrow> nat \<Rightarrow> sched_vars \<Rightarrow> sched_vars" where
  "FCFS_body processes i v =
     (let p = processes ! i;
          w = (if 0 < ArrivalTime p then serviceTime v - ArrivalTime p else waitingTime v);
          start = w + ArrivalTime p;
          turnaround = BurstDuration p + w;
          exit = BurstDuration p + ArrivalTime p + w;
          service = serviceTime v + BurstDuration p
      in \<lparr>serviceTime = service,
          totalWait = totalWait v + w,
          totalTurnaround = totalTurnaround v + turnaround,
          lastCompletion = exit,
          waitingTime = w,
          schedule = (schedule v)[i := Some
             \<lparr>rowID = ProcessID p, rowPriority = Priority p, rowBurst = BurstDuration p,
              rowArrival = ArrivalTime p, rowWait = w, rowTurnaround = turnaround,
              rowExit = exit\<rparr>],
          gantt = gantt v @ [\<lparr>PID = ProcessID p, Start = start, Stop = service\<rparr>]\<rparr>)"

definition FCFS_loop :: "Process list \<Rightarrow> sched_vars" where
  "FCFS_loop processes =
     fold (FCFS_body processes) [0..<length processes] (init_vars processes)"

definition FCFSSchedule :: "Process list \<Rightarrow> Output" where
  "FCFSSchedule processes = finish processes (FCFS_loop processes)"


section \<open>Remaining bursts as a termination measure\<close>

lemma sum_nat_update_less:
  "n < length rb \<Longrightarrow> 0 < rb ! n \<Longrightarrow>
     sum_list (map nat (rb[n := rb ! n - 1])) < sum_list (map nat rb)"
proof (induction rb arbitrary: n)
  case Nil
  then show ?case by simp
next
  case (Cons a rb)
  then show ?case by (cases n) auto
qed

section \<open>Priority (\<open>SJFPrioritySchedule\<close>)\<close>

text \<open>
  The inner loop \<open>for i, p := range processes\<close> of \<open>SJFPrioritySchedule\<close>, one iteration:
  \<open>nextProcess\<close> starts at \<open>-1\<close> and is replaced by \<open>i\<close> when process \<open>i\<close> has burst left,
  has arrived, and has strictly less remaining burst than the current candidate.
\<close>

definition SJFPriority_pick :: "Process list \<Rightarrow> int list \<Rightarrow> int \<Rightarrow> nat \<Rightarrow> int \<Rightarrow> int" where
  "SJFPriority_pick processes rb now i nextProcess =
     (if 0 < rb ! i \<and> ArrivalTime (processes ! i) \<le> now then
        (if nextProcess = -1 \<or> rb ! i < rb ! nat nextProcess then int i else nextProcess)
      else nextProcess)"

definition SJFPriority_select :: "Process list \<Rightarrow> int list \<Rightarrow> int \<Rightarrow> int" where
  "SJFPriority_select processes rb now =
     fold (SJFPriority_pick processes rb now) [0..<length processes] (-1)"

text \<open>
  The rest of the outer loop body once a process \<open>n\<close> is chosen: one unit is taken from
  its remaining burst (the clock \<open>completion\<close> does not move), and when the remaining burst
  reaches 0 the row and the time slice are written and the clock jumps by the whole
  \<open>BurstDuration\<close>.
\<close>

definition SJFPriority_run :: "Process list \<Rightarrow> nat \<Rightarrow> loop_vars \<Rightarrow> loop_vars" where
  "SJFPriority_run processes n v =
     (let p = processes ! n;
          start = completion v;
          v1 = v\<lparr>serviceTime := serviceTime v + 1,
                 remainingBurst := (remainingBurst v)[n := remainingBurst v ! n - 1]\<rparr>
      in if remainingBurst v1 ! n = 0 then
           (let turnaround = completion v1 - ArrivalTime p + 1;
                w = turnaround - BurstDuration p;
                stop = completion v1 + BurstDuration p
            in v1\<lparr>totalTurnaround := totalTurnaround v1 + turnaround,
                   waitingTime := w,
                   totalWait := totalWait v1 + w,
                   lastCompletion := completion v1 + 1,
                   schedule := (schedule v1)[n := Some
                     \<lparr>rowID = ProcessID p, rowPriority = Priority p,
                      rowBurst = BurstDuration p, rowArrival = ArrivalTime p, rowWait = w,
                      rowTurnaround = turnaround,
                      rowExit = completion v1 + BurstDuration p\<rparr>],
                   completion := stop,
                   gantt := gantt v1 @ [\<lparr>PID = ProcessID p, Start = start, Stop = stop\<rparr>]\<rparr>)
         else v1)"

lemma SJFPriority_select_range:
  "fold (SJFPriority_pick ps rb now) [0..<k] (-1) = n \<Longrightarrow> n \<noteq> -1 \<Longrightarrow>
     0 \<le> n \<and> nat n < k \<and> 0 < rb ! nat n"
proof (induction k arbitrary: n)
  case 0
  then show ?case by simp
next
  case (Suc k)
  then show ?case
    by (auto simp: SJFPriority_pick_def less_Suc_eq split: if_splits)
qed

lemma SJFPriority_run_remaining:
  "remainingBurst (SJFPriority_run processes n v) = (remainingBurst v)[n := remainingBurst v ! n - 1]"
  by (simp add: SJFPriority_run_def Let_def)

text \<open>
  The outer loop \<open>for completion < int64(len(processes))\<close>. \<open>remainingBurst\<close> is allocated
  with \<open>len(processes)\<close> entries and never resized; the second conjunct of the guard states
  this, so that the recursion is well-founded on every state and not only on those the
  code reaches. It is true in the initial state and kept by every step.
\<close>

function SJFPriority_loop :: "Process list \<Rightarrow> loop_vars \<Rightarrow> loop_vars" where
  "SJFPriority_loop processes v =
     (if completion v < int (length processes)
         \<and> length (remainingBurst v) = length processes then
        (let nextProcess = SJFPriority_select processes (remainingBurst v) (completion v) in
         if nextProcess = -1 then SJFPriority_loop processes (v\<lparr>completion := completion v + 1\<rparr>)
         else SJFPriority_loop processes (SJFPriority_run processes (nat nextProcess) v))
      else v)"
  by pat_completeness auto
termination
proof (relation "measures [\<lambda>(ps, v). sum_list (map nat (remainingBurst v)),
                           \<lambda>(ps, v). nat (int (length ps) - completion v)]", goal_cases)
  case 1
  then show ?case by simp
next
  case (2 processes v x)
  then show ?case by simp
next
  case (3 processes v x)
  then have "nat x < length (remainingBurst v) \<and> 0 < remainingBurst v ! nat x"
    using SJFPriority_select_range [of processes "remainingBurst v" "completion v" "length processes" x]
    by (simp add: SJFPriority_select_def)
  then have "sum_list (map nat ((remainingBurst v)[nat x := remainingBurst v ! nat x - 1]))
               < sum_list (map nat (remainingBurst v))"
    by (simp only: sum_nat_update_less)
  then show ?case
    by (simp only: SJFPriority_run_remaining in_measures prod.case simp_thms)
qed

declare SJFPriority_loop.simps [simp del]

definition SJFPrioritySchedule :: "Process list \<Rightarrow> Output" where
  "SJFPrioritySchedule processes = finish processes (SJFPriority_loop processes (init_loop_vars processes))"

section \<open>Shortest-job-first\<close>

text \<open>
  The inner loop \<open>for i, p := range processes\<close> of \<open>SJFSchedule\<close>, one iteration:
  \<open>nextProcess\<close> starts at \<open>-1\<close> and is replaced by \<open>i\<close> when process \<open>i\<close> has burst left,
  has arrived, and has strictly less remaining burst than the current candidate.
\<close>

definition SJF_pick :: "Process list \<Rightarrow> int list \<Rightarrow> int \<Rightarrow> nat \<Rightarrow> int \<Rightarrow> int" where
  "SJF_pick processes rb now i nextProcess =
     (if 0 < rb ! i \<and> ArrivalTime (processes ! i) \<le> now then
        (if nextProcess = -1 \<or> rb ! i < rb ! nat nextProcess then int i else nextProcess)
      else nextProcess)"

definition SJF_select :: "Process list \<Rightarrow> int list \<Rightarrow> int \<Rightarrow> int" where
  "SJF_select processes rb now =
     fold (SJF_pick processes rb now) [0..<length processes] (-1)"

text \<open>
  The rest of the outer loop body once a process \<open>n\<close> is chosen: one unit is taken from
  its remaining burst (the clock \<open>completion\<close> does not move), and when the remaining burst
  reaches 0 the row and the time slice are written and the clock jumps by the whole
  \<open>BurstDuration\<close>.
\<close>

definition SJF_run :: "Process list \<Rightarrow> nat \<Rightarrow> loop_vars \<Rightarrow> loop_vars" where
  "SJF_run processes n v =
     (let p = processes ! n;
          start = completion v;
          v1 = v\<lparr>serviceTime := serviceTime v + 1,
                 remainingBurst := (remainingBurst v)[n := remainingBurst v ! n - 1]\<rparr>
      in if remainingBurst v1 ! n = 0 then
           (let turnaround = completion v1 - ArrivalTime p + 1;
                w = turnaround - BurstDuration p;
                stop = completion v1 + BurstDuration p
            in v1\<lparr>totalTurnaround := totalTurnaround v1 + turnaround,
                   waitingTime := w,
                   totalWait := totalWait v1 + w,
                   lastCompletion := completion v1 + 1,
                   schedule := (schedule v1)[n := Some
                     \<lparr>rowID = ProcessID p, rowPriority = Priority p,
                      rowBurst = BurstDuration p, rowArrival = ArrivalTime p, rowWait = w,
                      rowTurnaround = turnaround,
                      rowExit = completion v1 + BurstDuration p\<rparr>],
                   completion := stop,
                   gantt := gantt v1 @ [\<lparr>PID = ProcessID p, Start = start, Stop = stop\<rparr>]\<rparr>)
         else v1)"

lemma SJF_select_range:
  "fold (SJF_pick ps rb now) [0..<k] (-1) = n \<Longrightarrow> n \<noteq> -1 \<Longrightarrow>
     0 \<le> n \<and> nat n < k \<and> 0 < rb ! nat n"
proof (induction k arbitrary: n)
  case 0
  then show ?case by simp
next
  case (Suc k)
  then show ?case
    by (auto simp: SJF_pick_def less_Suc_eq split: if_splits)
qed

lemma SJF_run_remaining:
  "remainingBurst (SJF_run processes n v) = (remainingBurst v)[n := remainingBurst v ! n - 1]"
  by (simp add: SJF_run_def Let_def)

text \<open>
  The outer loop \<open>for completion < int64(len(processes))\<close>. \<open>remainingBurst\<close> is allocated
  with \<open>len(processes)\<close> entries and never resized; the second conjunct of the guard states
  this, so that the recursion is well-founded on every state and not only on those the
  code reaches. It is true in the initial state and kept by every step.
\<close>

function SJF_loop :: "Process list \<Rightarrow> loop_vars \<Rightarrow> loop_vars" where
  "SJF_loop processes v =
     (if completion v < int (length processes)
         \<and> length (remainingBurst v) = length processes then
        (let nextProcess = SJF_select processes (remainingBurst v) (completion v) in
         if nextProcess = -1 then SJF_loop processes (v\<lparr>completion := completion v + 1\<rparr>)
         else SJF_loop processes (SJF_run processes (nat nextProcess) v))
      else v)"
  by pat_completeness auto
termination
proof (relation "measures [\<lambda>(ps, v). sum_list (map nat (remainingBurst v)),
                           \<lambda>(ps, v). nat (int (length ps) - completion v)]", goal_cases)
  case 1
  then show ?case by simp
next
  case (2 processes v x)
  then show ?case by simp
next
  case (3 processes v x)
  then have "nat x < length (remainingBurst v) \<and> 0 < remainingBurst v ! nat x"
    using SJF_select_range [of processes "remainingBurst v" "completion v" "length processes" x]
    by (simp add: SJF_select_def)
  then have "sum_list (map nat ((remainingBurst v)[nat x := remainingBurst v ! nat x - 1]))
               < sum_list (map nat (remainingBurst v))"
    by (simp only: sum_nat_update_less)
  then show ?case
    by (simp only: SJF_run_remaining in_measures prod.case simp_thms)
qed

declare SJF_loop.simps [simp del]

definition SJFSchedule :: "Process list \<Rightarrow> Output" where
  "SJFSchedule processes = finish processes (SJF_loop processes (init_loop_vars processes))"

section \<open>Round-robin\<close>

definition quantum :: int where
  "quantum = 2"

text \<open>
  One iteration of the inner loop \<open>for i := range processes\<close> of \<open>RRSchedule\<close>. Both
  branches write the row of process \<open>i\<close>; the branch for a remaining burst within the
  quantum advances the clock by the whole \<open>BurstDuration\<close>.
\<close>

definition RR_body :: "Process list \<Rightarrow> nat \<Rightarrow> loop_vars \<Rightarrow> loop_vars" where
  "RR_body processes i v =
     (let p = processes ! i; rem = remainingBurst v ! i in
      if 0 < rem \<and> ArrivalTime p \<le> completion v then
        (let start = completion v;
             w = completion v - ArrivalTime p
         in if rem \<le> quantum then
              (let turnaround = w + rem;
                   stop = completion v + BurstDuration p
               in v\<lparr>serviceTime := serviceTime v + 1,
                     waitingTime := w,
                     totalWait := totalWait v + w,
                     totalTurnaround := totalTurnaround v + turnaround,
                     lastCompletion := completion v + rem,
                     schedule := (schedule v)[i := Some
                       \<lparr>rowID = ProcessID p, rowPriority = Priority p,
                        rowBurst = BurstDuration p, rowArrival = ArrivalTime p, rowWait = w,
                        rowTurnaround = turnaround, rowExit = completion v + rem\<rparr>],
                     completion := stop,
                     gantt := gantt v @ [\<lparr>PID = ProcessID p, Start = start, Stop = stop\<rparr>],
                     remainingBurst := (remainingBurst v)[i := 0]\<rparr>)
            else
              (let turnaround = w + quantum;
                   stop = completion v + quantum
               in v\<lparr>serviceTime := serviceTime v + 1,
                     waitingTime := w,
                     totalWait := totalWait v + w,
                     totalTurnaround := totalTurnaround v + turnaround,
                     lastCompletion := completion v + quantum,
                     schedule := (schedule v)[i := Some
                       \<lparr>rowID = ProcessID p, rowPriority = Priority p,
                        rowBurst = BurstDuration p, rowArrival = ArrivalTime p, rowWait = w,
                        rowTurnaround = turnaround, rowExit = completion v + quantum\<rparr>],
                     completion := stop,
                     gantt := gantt v @ [\<lparr>PID = ProcessID p, Start = start, Stop = stop\<rparr>],
                     remainingBurst := (remainingBurst v)[i := rem - quantum]\<rparr>))
      else v)"

definition RR_pass :: "Process list \<Rightarrow> loop_vars \<Rightarrow> loop_vars" where
  "RR_pass processes v = fold (RR_body processes) [0..<length processes] v"

text \<open>
  The outer loop \<open>for completion < int64(len(processes))\<close>. A pass in which no process is
  both arrived and unfinished leaves every variable as it was, so the loop need not end:
  not returning is the value \<open>None\<close>.
\<close>

partial_function (option) RR_loop :: "Process list \<Rightarrow> loop_vars \<Rightarrow> loop_vars option" where
  "RR_loop processes v =
     (if completion v < int (length processes) then RR_loop processes (RR_pass processes v)
      else Some v)"

declare RR_loop.simps [code]

definition RRSchedule :: "Process list \<Rightarrow> Output option" where
  "RRSchedule processes =
     map_option (finish processes) (RR_loop processes (init_loop_vars processes))"

section \<open>Process sets used below\<close>

text \<open>Three processes that all arrive at time 0, with bursts 24, 3 and 3.\<close>

definition textbook :: "Process list" where
  "textbook = [\<lparr>ProcessID = 1, ArrivalTime = 0, BurstDuration = 24, Priority = 0\<rparr>,
              \<lparr>ProcessID = 2, ArrivalTime = 0, BurstDuration = 3, Priority = 0\<rparr>,
              \<lparr>ProcessID = 3, ArrivalTime = 0, BurstDuration = 3, Priority = 0\<rparr>]"

text \<open>A single process that arrives one time unit after the clock starts.\<close>

definition late :: "Process list" where
  "late = [\<lparr>ProcessID = 1, ArrivalTime = 1, BurstDuration = 1, Priority = 0\<rparr>]"




section \<open>Unfolding the schedulers on concrete inputs\<close>

lemmas upt_eval =
  upt_rec [of _ "numeral _"] upt_rec [of _ "Suc _"] upt_rec [of _ 0] upt_rec [of _ 1]

lemmas FCFS_eval = FCFSSchedule_def FCFS_loop_def FCFS_body_def init_vars_def finish_def
  fdiv_def upt_eval Let_def

lemmas SJF_eval = SJFSchedule_def SJF_loop.simps SJF_select_def SJF_pick_def SJF_run_def
  init_loop_vars_def getBurstDurations_def finish_def fdiv_def upt_eval Let_def

lemmas SJFPriority_eval = SJFPrioritySchedule_def SJFPriority_loop.simps
  SJFPriority_select_def SJFPriority_pick_def SJFPriority_run_def init_loop_vars_def
  getBurstDurations_def finish_def fdiv_def upt_eval Let_def

lemmas RR_eval = RRSchedule_def RR_loop.simps RR_pass_def RR_body_def quantum_def
  init_loop_vars_def getBurstDurations_def finish_def fdiv_def upt_eval Let_def

section \<open>The three cases of the shortest-job-first loops\<close>

lemma SJF_loop_stop:
  "\<not> (completion v < int (length processes) \<and> length (remainingBurst v) = length processes)
     \<Longrightarrow> SJF_loop processes v = v"
  by (subst SJF_loop.simps) auto

lemma SJF_loop_idle:
  "completion v < int (length processes) \<Longrightarrow> length (remainingBurst v) = length processes \<Longrightarrow>
   SJF_select processes (remainingBurst v) (completion v) = -1 \<Longrightarrow>
     SJF_loop processes v = SJF_loop processes (v\<lparr>completion := completion v + 1\<rparr>)"
  by (subst SJF_loop.simps) (simp add: Let_def)

lemma SJF_loop_busy:
  "completion v < int (length processes) \<Longrightarrow> length (remainingBurst v) = length processes \<Longrightarrow>
   SJF_select processes (remainingBurst v) (completion v) \<noteq> -1 \<Longrightarrow>
     SJF_loop processes v =
       SJF_loop processes
         (SJF_run processes (nat (SJF_select processes (remainingBurst v) (completion v))) v)"
  by (subst SJF_loop.simps) (simp add: Let_def)

lemma SJFPriority_loop_stop:
  "\<not> (completion v < int (length processes) \<and> length (remainingBurst v) = length processes)
     \<Longrightarrow> SJFPriority_loop processes v = v"
  by (subst SJFPriority_loop.simps) auto

lemma SJFPriority_loop_idle:
  "completion v < int (length processes) \<Longrightarrow> length (remainingBurst v) = length processes \<Longrightarrow>
   SJFPriority_select processes (remainingBurst v) (completion v) = -1 \<Longrightarrow>
     SJFPriority_loop processes v =
       SJFPriority_loop processes (v\<lparr>completion := completion v + 1\<rparr>)"
  by (subst SJFPriority_loop.simps) (simp add: Let_def)

lemma SJFPriority_loop_busy:
  "completion v < int (length processes) \<Longrightarrow> length (remainingBurst v) = length processes \<Longrightarrow>
   SJFPriority_select processes (remainingBurst v) (completion v) \<noteq> -1 \<Longrightarrow>
     SJFPriority_loop processes v =
       SJFPriority_loop processes
         (SJFPriority_run processes
            (nat (SJFPriority_select processes (remainingBurst v) (completion v))) v)"
  by (subst SJFPriority_loop.simps) (simp add: Let_def)

section \<open>The priority scheduler against shortest-job-first\<close>

lemma SJFPriority_pick_eq: "SJFPriority_pick = SJF_pick"
  by (intro ext) (simp add: SJFPriority_pick_def SJF_pick_def)

lemma SJFPriority_select_eq: "SJFPriority_select = SJF_select"
  by (intro ext) (simp add: SJFPriority_select_def SJF_select_def SJFPriority_pick_eq)

lemma SJFPriority_run_eq: "SJFPriority_run = SJF_run"
  by (intro ext) (simp add: SJFPriority_run_def SJF_run_def)

lemma SJFPriority_loop_eq: "SJFPriority_loop processes v = SJF_loop processes v"
proof (induction processes v rule: SJF_loop.induct)
  case (1 processes v)
  let ?guard = "completion v < int (length processes)
                  \<and> length (remainingBurst v) = length processes"
  let ?x = "SJF_select processes (remainingBurst v) (completion v)"
  consider (stop) "\<not> ?guard" | (idle) "?guard" "?x = -1" | (busy) "?guard" "?x \<noteq> -1"
    by blast
  then show ?case
  proof cases
    case stop
    then have "SJFPriority_loop processes v = v" and "SJF_loop processes v = v"
      by (rule SJFPriority_loop_stop, rule SJF_loop_stop)
    then show ?thesis by simp
  next
    case idle
    then have "SJFPriority_loop processes (v\<lparr>completion := completion v + 1\<rparr>)
              = SJF_loop processes (v\<lparr>completion := completion v + 1\<rparr>)"
      using "1.IH"(1) by simp
    with idle show ?thesis
      by (simp add: SJF_loop_idle SJFPriority_loop_idle SJFPriority_select_eq)
  next
    case busy
    then have "SJFPriority_loop processes (SJF_run processes (nat ?x) v)
              = SJF_loop processes (SJF_run processes (nat ?x) v)"
      using "1.IH"(2) by simp
    with busy show ?thesis
      by (simp add: SJF_loop_busy SJFPriority_loop_busy SJFPriority_select_eq
            SJFPriority_run_eq)
  qed
qed

text \<open>
  Claim C10. \<open>SJFSchedule\<close> and \<open>SJFPrioritySchedule\<close> are extensionally equal: on every
  process list they hand over the same schedule rows, the same timeline and the same
  averages and throughput. The two function bodies differ in nothing but their name, and in
  particular both select by remaining burst.
\<close>

theorem SJFPriority_equals_SJF: "SJFPrioritySchedule processes = SJFSchedule processes"
  by (simp only: SJFPrioritySchedule_def SJFSchedule_def SJFPriority_loop_eq)

section \<open>First-come, first-serve: waiting times and the timeline\<close>

lemma FCFS_fold_lengths:
  "length (schedule (fold (FCFS_body ps) [0..<k] v)) = length (schedule v)
   \<and> length (gantt (fold (FCFS_body ps) [0..<k] v)) = length (gantt v) + k"
  by (induction k) (simp_all add: FCFS_body_def Let_def)

text \<open>
  The waiting time that the loop writes into row \<open>i\<close>, for any process list: when the
  process has a positive arrival time it is the sum of the earlier bursts minus the
  arrival time, with no lower bound; otherwise it is the value \<open>waitingTime\<close> had before
  the iteration, that is the wait of the previous row.
\<close>

lemma FCFS_fold_service:
  "k \<le> length ps \<Longrightarrow>
     serviceTime (fold (FCFS_body ps) [0..<k] (init_vars ps)) =
       sum_list (map BurstDuration (take k ps))"
proof (induction k)
  case 0
  then show ?case by (simp add: init_vars_def)
next
  case (Suc k)
  then show ?case
    by (simp add: FCFS_body_def Let_def take_Suc_conv_app_nth)
qed

lemma FCFS_body_other_row:
  "i \<noteq> k \<Longrightarrow> schedule (FCFS_body ps k v) ! i = schedule v ! i"
  by (simp add: FCFS_body_def Let_def)

lemma FCFS_fold_row_kept:
  "i < k \<Longrightarrow>
     schedule (fold (FCFS_body ps) [0..<k] v) ! i =
       schedule (fold (FCFS_body ps) [0..<Suc i] v) ! i"
proof (induction k)
  case 0
  then show ?case by simp
next
  case (Suc k)
  show ?case
  proof (cases "i = k")
    case True
    then show ?thesis by simp
  next
    case False
    with Suc.prems have "i < k" by simp
    with Suc.IH False show ?thesis
      by (simp add: FCFS_body_other_row)
  qed
qed

lemma FCFS_body_wait:
  "i < length (schedule v) \<Longrightarrow>
     map_option rowWait (schedule (FCFS_body ps i v) ! i) =
       Some (if 0 < ArrivalTime (ps ! i) then serviceTime v - ArrivalTime (ps ! i)
             else waitingTime v)"
  by (simp add: FCFS_body_def Let_def)

lemma FCFS_body_waitingTime:
  "i < length (schedule v) \<Longrightarrow>
     map_option rowWait (schedule (FCFS_body ps i v) ! i) = Some (waitingTime (FCFS_body ps i v))"
  by (simp add: FCFS_body_def Let_def)

lemma FCFS_row_wait:
  assumes "i < length ps"
  shows "map_option rowWait (out_schedule (FCFSSchedule ps) ! i) =
           Some (if 0 < ArrivalTime (ps ! i)
                 then sum_list (map BurstDuration (take i ps)) - ArrivalTime (ps ! i)
                 else waitingTime (fold (FCFS_body ps) [0..<i] (init_vars ps)))"
proof -
  let ?v = "fold (FCFS_body ps) [0..<i] (init_vars ps)"
  have len: "i < length (schedule ?v)"
    using assms by (simp add: FCFS_fold_lengths init_vars_def)
  have "out_schedule (FCFSSchedule ps) ! i =
          schedule (fold (FCFS_body ps) [0..<length ps] (init_vars ps)) ! i"
    by (simp add: FCFSSchedule_def FCFS_loop_def finish_def Let_def)
  also have "\<dots> = schedule (FCFS_body ps i ?v) ! i"
    using FCFS_fold_row_kept [OF assms] by simp
  finally show ?thesis
    using FCFS_body_wait [OF len, of ps] FCFS_fold_service [of i ps] assms by auto
qed

lemma FCFS_wait_unclamped:
  "i < length ps \<Longrightarrow> 0 < ArrivalTime (ps ! i) \<Longrightarrow>
     map_option rowWait (out_schedule (FCFSSchedule ps) ! i) =
       Some (sum_list (map BurstDuration (take i ps)) - ArrivalTime (ps ! i))"
  by (simp add: FCFS_row_wait)

lemma FCFS_wait_inherited:
  assumes "Suc i < length ps" and "ArrivalTime (ps ! Suc i) \<le> 0"
  shows "map_option rowWait (out_schedule (FCFSSchedule ps) ! Suc i) =
           map_option rowWait (out_schedule (FCFSSchedule ps) ! i)"
proof -
  let ?v = "fold (FCFS_body ps) [0..<i] (init_vars ps)"
  have i: "i < length ps" using assms by simp
  have len: "i < length (schedule ?v)"
    using i by (simp add: FCFS_fold_lengths init_vars_def)
  have "out_schedule (FCFSSchedule ps) ! i =
          schedule (fold (FCFS_body ps) [0..<length ps] (init_vars ps)) ! i"
    by (simp add: FCFSSchedule_def FCFS_loop_def finish_def Let_def)
  also have "\<dots> = schedule (FCFS_body ps i ?v) ! i"
    using FCFS_fold_row_kept [OF i] by simp
  finally have "map_option rowWait (out_schedule (FCFSSchedule ps) ! i) =
                  Some (waitingTime (FCFS_body ps i ?v))"
    using FCFS_body_waitingTime [OF len] by simp
  moreover have "map_option rowWait (out_schedule (FCFSSchedule ps) ! Suc i) =
                   Some (waitingTime (fold (FCFS_body ps) [0..<Suc i] (init_vars ps)))"
    using FCFS_row_wait [OF assms(1)] assms(2) by simp
  ultimately show ?thesis by auto
qed

text \<open>
  Claim C1. For the three processes with bursts 24, 3 and 3 that all arrive at time 0,
  first-come-first-serve is to give waits 0, 24, 27, turnarounds 24, 27, 30 and an average
  wait of 17. The code does not: \<open>waitingTime\<close> is assigned only under
  \<open>ArrivalTime > 0\<close>, so with every arrival at 0 it keeps its initial value 0 in all three
  iterations. The rows carry waits 0, 0, 0 and turnarounds 24, 3, 3, and the average wait
  is 0.
\<close>

theorem FCFS_textbook_rows:
  "out_schedule (FCFSSchedule textbook) =
     [Some \<lparr>rowID = 1, rowPriority = 0, rowBurst = 24, rowArrival = 0,
            rowWait = 0, rowTurnaround = 24, rowExit = 24\<rparr>,
      Some \<lparr>rowID = 2, rowPriority = 0, rowBurst = 3, rowArrival = 0,
            rowWait = 0, rowTurnaround = 3, rowExit = 3\<rparr>,
      Some \<lparr>rowID = 3, rowPriority = 0, rowBurst = 3, rowArrival = 0,
            rowWait = 0, rowTurnaround = 3, rowExit = 3\<rparr>]
   \<and> aveWait (FCFSSchedule textbook) = Fin 0"
  by (simp add: textbook_def FCFS_eval)

text \<open>
  Claim C6. In first-come-first-serve the wait of process \<open>i\<close> is to be
  \<open>max(0, serviceTimeSoFar - arrivalTime)\<close>, never negative and independent of the
  previous row. On the two processes below (arrival 5 with burst 2, then arrival 0 with
  burst 3) that formula gives waits 0 and 2. The code gives \<open>-5\<close> and \<open>-5\<close>: the first
  wait is \<open>0 - 5\<close> with no lower bound, and the second process, arriving at 0, inherits
  the wait of the row before it.
\<close>

theorem FCFS_wait_negative_and_inherited:
  "map (map_option rowWait) (out_schedule (FCFSSchedule
     [\<lparr>ProcessID = 1, ArrivalTime = 5, BurstDuration = 2, Priority = 0\<rparr>,
      \<lparr>ProcessID = 2, ArrivalTime = 0, BurstDuration = 3, Priority = 0\<rparr>])) =
     [Some (- 5), Some (- 5)]"
  by (simp add: FCFS_eval)

text \<open>
  Claim C8. Time slices of different processes are never to overlap. For the three
  processes of claim C1 the first-come-first-serve timeline is \<open>[0,24]\<close>, \<open>[0,27]\<close>,
  \<open>[0,30]\<close>: every slice starts at \<open>waitingTime + ArrivalTime = 0\<close> while its stop is the
  running sum of the bursts, so the three slices of three different processes lie inside
  one another.
\<close>

theorem FCFS_textbook_slices_overlap:
  "out_gantt (FCFSSchedule textbook) =
     [\<lparr>PID = 1, Start = 0, Stop = 24\<rparr>, \<lparr>PID = 2, Start = 0, Stop = 27\<rparr>,
      \<lparr>PID = 3, Start = 0, Stop = 30\<rparr>]"
  by (simp add: textbook_def FCFS_eval)

section \<open>Shortest-job-first and priority: what the loops complete\<close>



lemma SJFPriority_run_schedule_length:
  "length (schedule (SJFPriority_run ps n v)) = length (schedule v)"
  by (simp add: SJFPriority_run_def Let_def)

lemma SJFPriority_loop_schedule_length:
  "length (schedule (SJFPriority_loop ps v)) = length (schedule v)"
proof (induction ps v rule: SJFPriority_loop.induct)
  case (1 processes v)
  show ?case
    using 1
    by (subst SJFPriority_loop.simps) (simp add: Let_def SJFPriority_run_schedule_length)
qed

text \<open>
  Claim C2. Every scheduler is to run until all processes have completed and to produce
  one row per process, however large the bursts are compared with the number of
  processes. The loops of \<open>SJFSchedule\<close>, \<open>SJFPrioritySchedule\<close> and \<open>RRSchedule\<close> run
  while the clock \<open>completion\<close> is below the number of processes. On the three processes
  of claim C1 shortest-job-first stops once process 2 is done (clock 3): processes 1 and 3
  keep their whole bursts and their rows stay empty. Round-robin stops after one slice
  each (clock 6) with 22, 1 and 1 units of burst left.
\<close>

theorem SJF_RR_leave_processes_unfinished:
  "remainingBurst (SJF_loop textbook (init_loop_vars textbook)) = [24, 0, 3]
   \<and> map (\<lambda>r. r = None) (out_schedule (SJFSchedule textbook)) = [True, False, True]
   \<and> map_option remainingBurst (RR_loop textbook (init_loop_vars textbook)) = Some [22, 1, 1]"
  by (simp add: textbook_def SJF_eval RR_eval)

text \<open>
  Claim C3. The priority scheduler is to choose, among the arrived and unfinished
  processes, the one with the smallest priority value, whatever the bursts. With process 1
  (burst 3, priority 1) and process 2 (burst 1, priority 2) both arrived at time 0, the
  selection loop of \<open>SJFPrioritySchedule\<close> returns index 1, that is process 2, and the
  timeline runs process 2 before process 1: the loop compares remaining bursts and never
  reads \<open>Priority\<close>.
\<close>

theorem Priority_runs_shorter_burst_first:
  "SJFPriority_select
     [\<lparr>ProcessID = 1, ArrivalTime = 0, BurstDuration = 3, Priority = 1\<rparr>,
      \<lparr>ProcessID = 2, ArrivalTime = 0, BurstDuration = 1, Priority = 2\<rparr>] [3, 1] 0 = 1
   \<and> out_gantt (SJFPrioritySchedule
        [\<lparr>ProcessID = 1, ArrivalTime = 0, BurstDuration = 3, Priority = 1\<rparr>,
         \<lparr>ProcessID = 2, ArrivalTime = 0, BurstDuration = 1, Priority = 2\<rparr>]) =
       [\<lparr>PID = 2, Start = 0, Stop = 1\<rparr>, \<lparr>PID = 1, Start = 1, Stop = 4\<rparr>]"
  by (simp add: SJFPriority_eval)

text \<open>
  Claim C4. On the three processes of claim C1 shortest-job-first is to run 2, 3, 1 with
  waits 0, 3, 6, turnarounds 3, 6, 30 and an average wait of 3. The code hands over a
  single slice and a single row, for process 2, with wait \<open>-2\<close> and turnaround 1; the
  rows of processes 1 and 3 are empty, and the average wait is \<open>-2/3\<close>.
\<close>

theorem SJF_textbook_output:
  "SJFSchedule textbook =
     \<lparr>out_gantt = [\<lparr>PID = 2, Start = 0, Stop = 3\<rparr>],
      out_schedule =
        [None,
         Some \<lparr>rowID = 2, rowPriority = 0, rowBurst = 3, rowArrival = 0,
               rowWait = - 2, rowTurnaround = 1, rowExit = 3\<rparr>,
         None],
      aveWait = Fin (- (2 / 3)), aveTurnaround = Fin (1 / 3), aveThroughput = Fin 3\<rparr>"
  by (simp add: textbook_def SJF_eval)

text \<open>
  Claim C7. Every row is to satisfy turnaround = completion - arrival,
  wait = turnaround - burst and wait \<ge> 0. For a single process with burst 3 arriving at
  time 0, shortest-job-first writes the row wait \<open>-2\<close>, turnaround 1, exit 3: the
  turnaround is \<open>completion - ArrivalTime + 1\<close> taken before the clock is advanced, so it
  is 1 and not \<open>3 - 0\<close>, and the wait \<open>1 - 3\<close> is negative.
\<close>

theorem SJF_row_breaks_invariants:
  "out_schedule (SJFSchedule
     [\<lparr>ProcessID = 1, ArrivalTime = 0, BurstDuration = 3, Priority = 0\<rparr>]) =
     [Some \<lparr>rowID = 1, rowPriority = 0, rowBurst = 3, rowArrival = 0,
            rowWait = - 2, rowTurnaround = 1, rowExit = 3\<rparr>]"
  by (simp add: SJF_eval)

section \<open>Round-robin: slices and termination\<close>

text \<open>
  For the process set \<open>late\<close> a pass of the inner loop changes nothing, since the only
  process has not arrived at time 0, and the clock stays below the number of processes:
  the outer loop never ends.
\<close>

lemma RR_pass_late: "RR_pass late (init_loop_vars late) = init_loop_vars late"
  by (simp add: RR_pass_def RR_body_def late_def init_loop_vars_def getBurstDurations_def
        Let_def)

lemma RR_late_no_result:
  assumes "RR_loop ps v = Some r"
  shows "\<not> (ps = late \<and> v = init_loop_vars late)"
proof (rule RR_loop.raw_induct
         [where P = "\<lambda>ps v r. \<not> (ps = late \<and> v = init_loop_vars late)", OF _ assms])
  fix f ps v r
  assume IH: "\<And>ps v r. f ps v = Some r \<Longrightarrow> \<not> (ps = late \<and> v = init_loop_vars late)"
    and step: "(if completion v < int (length ps) then f ps (RR_pass ps v) else Some v) = Some r"
  show "\<not> (ps = late \<and> v = init_loop_vars late)"
  proof
    assume a: "ps = late \<and> v = init_loop_vars late"
    then have "completion v < int (length ps)"
      by (simp add: late_def init_loop_vars_def)
    with step a have "f late (init_loop_vars late) = Some r"
      by (simp add: RR_pass_late)
    from IH [OF this] show False by simp
  qed
qed

lemma RR_late_never_returns: "RRSchedule late = None"
  by (cases "RR_loop late (init_loop_vars late)")
     (auto simp: RRSchedule_def dest: RR_late_no_result)

text \<open>
  A single process that arrives at time 0 with more burst than the quantum gets exactly
  one slice, of the length of the quantum, whatever its burst.
\<close>

lemma RR_long_single_process:
  "quantum < B \<Longrightarrow>
     map_option out_gantt
       (RRSchedule [\<lparr>ProcessID = p, ArrivalTime = 0, BurstDuration = B, Priority = q\<rparr>]) =
     Some [\<lparr>PID = p, Start = 0, Stop = quantum\<rparr>]"
  by (simp add: RR_eval)

text \<open>
  Claim C5. A single process with burst \<open>B\<close> above the quantum \<open>Q\<close> is to get
  \<open>ceil(B/Q)\<close> slices, all of length \<open>Q\<close> but possibly the last. With \<open>Q = 2\<close> and
  \<open>B = 5\<close> that is three slices. The code hands over one slice, \<open>[0,2]\<close>: after it the
  clock is 2, which is not below the number of processes (1), and the loop ends with 3
  units of burst left.
\<close>

theorem RR_single_process_one_slice:
  "RRSchedule [\<lparr>ProcessID = 1, ArrivalTime = 0, BurstDuration = 5, Priority = 0\<rparr>] =
     Some \<lparr>out_gantt = [\<lparr>PID = 1, Start = 0, Stop = 2\<rparr>],
           out_schedule =
             [Some \<lparr>rowID = 1, rowPriority = 0, rowBurst = 5, rowArrival = 0,
                    rowWait = 0, rowTurnaround = 2, rowExit = 2\<rparr>],
           aveWait = Fin 0, aveTurnaround = Fin 2, aveThroughput = Fin (1 / 2)\<rparr>"
  by (simp add: RR_eval)

section \<open>Input validation\<close>


subsection \<open>First-come, first-serve on any list\<close>






subsection \<open>Shortest-job-first on any list\<close>











subsection \<open>Round-robin on any list\<close>








subsection \<open>The four entry points on invalid input\<close>



end
